theory Spec2Isabelle
  imports Main
begin

section \<open>Raw input: JSON-shaped Python values\<close>

text \<open>
  The raw data handed to the block models is what \<^verbatim>\<open>json.loads\<close> produces. A Python
  \<^verbatim>\<open>dict\<close> keeps its keys in insertion order and \<^verbatim>\<open>insert_type\<close> reads the first
  key, so an object is an association list (keys distinct, in insertion order).
  Floating point numbers are left out of the model.
\<close>

datatype json =
    JNull
  | JBool bool
  | JInt int
  | JStr string
  | JList "json list"
  | JObj "(string \<times> json) list"

text \<open>
  The exceptions a conversion can end with. \<open>ValidationError\<close> is pydantic's structured
  error; \<open>IndexError\<close> and \<open>TypeError\<close> are the plain Python exceptions that the
  statement \<^verbatim>\<open>values["type"] = list(values)[0]\<close> can raise. pydantic turns only
  \<^verbatim>\<open>ValueError\<close> and \<^verbatim>\<open>AssertionError\<close> of a validator into a \<open>ValidationError\<close>; any other
  exception leaves the conversion call as it is.
\<close>

datatype error = ValidationError | IndexError | TypeError

record datetime =
  year :: nat
  month :: nat
  day :: nat
  hour :: nat
  minute :: nat
  second :: nat
  microsecond :: nat
  utcoffset :: "int option"

section \<open>The schema declared by block.py\<close>

text \<open>The schema types that block.py imports from the other modules of the package.\<close>

datatype ext = ParentUnion | NotionUser | RichText | Url | FileUnion | Color | Language

text \<open>
  Every model class of block.py: the 27 subclasses of \<^verbatim>\<open>_BlockCommon\<close>, then the payload
  classes (the source writes most of them with a leading underscore, nested in their block
  class).
\<close>

datatype model =
    Bookmark | BreadCrumb | BulletedListItem | Callout | ChildDatabase | ChildPage | Code
  | ColumnList | Column | Heading1 | Divider | Embed | Equation | File | Heading2 | Heading3
  | Image | LinkPreview | NumberedListItem | Paragraph | Quote | SyncedBlock | Table
  | TableRow | Todo | Toggle | Video
  | BookmarkData | BulletedData | CalloutData | ChildDatabaseData | ChildPageData | CodeData
  | HeadingData | EquationData | ImageData | NumberedListItemData | ParagraphData | QuoteData
  | SyncedBlockData | SyncedFrom | TableData | TableRowData | TodoData | ToggleData | VideoData

text \<open>
  Field annotations. \<open>TPattern\<close> is \<^verbatim>\<open>str\<close> with \<^verbatim>\<open>pattern=UUIDv4\<close>, \<open>TOptional t\<close> is
  \<^verbatim>\<open>t | None\<close>, \<open>TChildBlockUnion\<close> is the undiscriminated \<^verbatim>\<open>_ChildBlockUnion\<close>.
\<close>

datatype ftype =
    TStr
  | TBool
  | TInt
  | TDict
  | TDatetime
  | TPattern
  | TLiteral string
  | TExt ext
  | TOptional ftype
  | TList ftype
  | TModel model
  | TChildBlockUnion

text \<open>The default of a field: none (the field is required), or the value written in the source.\<close>

datatype dflt = Required | DNone | DFalse | DEmptyDict | DColorDefault

type_synonym field = "string \<times> ftype \<times> dflt"

definition BlockCommon :: "field list" where
  "BlockCommon =
    [(''object'', TOptional (TLiteral ''block''), DNone),
     (''id'', TOptional TPattern, DNone),
     (''parent'', TOptional (TExt ParentUnion), DNone),
     (''created_time'', TOptional TDatetime, DNone),
     (''last_edited_time'', TOptional TDatetime, DNone),
     (''created_by'', TOptional (TExt NotionUser), DNone),
     (''last_edited_by'', TOptional (TExt NotionUser), DNone),
     (''has_children'', TBool, DFalse),
     (''archived'', TBool, DFalse),
     (''in_trash'', TBool, DFalse),
     (''request_id'', TOptional TPattern, DNone)]"

definition children_field :: field where
  "children_field = (''children'', TOptional (TList TChildBlockUnion), DNone)"

fun model_fields :: "model \<Rightarrow> field list" where
  "model_fields Bookmark = BlockCommon @
     [(''type'', TLiteral ''bookmark'', Required), (''bookmark'', TModel BookmarkData, Required)]"
| "model_fields BookmarkData = [(''url'', TStr, Required), (''caption'', TExt RichText, Required)]"
| "model_fields BreadCrumb = BlockCommon @
     [(''type'', TLiteral ''breadcrumb'', Required), (''breadcrumb'', TDict, DEmptyDict)]"
| "model_fields BulletedListItem = BlockCommon @
     [(''type'', TLiteral ''bulleted_list_item'', Required),
      (''bulleted_list_item'', TExt RichText, Required)]"
| "model_fields BulletedData =
     [(''rich_text'', TExt RichText, Required), (''color'', TExt Color, DColorDefault),
      children_field]"
| "model_fields Callout = BlockCommon @
     [(''type'', TLiteral ''callout'', Required), (''callout'', TModel CalloutData, Required)]"
| "model_fields CalloutData =
     [(''rich_text'', TExt RichText, Required), (''icon'', TOptional TStr, DNone),
      (''color'', TExt Color, DColorDefault)]"
| "model_fields ChildDatabase = BlockCommon @
     [(''type'', TLiteral ''child_database'', Required),
      (''child_database'', TModel ChildDatabaseData, Required)]"
| "model_fields ChildDatabaseData = [(''title'', TStr, Required)]"
| "model_fields ChildPage = BlockCommon @
     [(''type'', TLiteral ''child_page'', Required),
      (''child_page'', TModel ChildPageData, Required)]"
| "model_fields ChildPageData = [(''title'', TStr, Required)]"
| "model_fields Code = BlockCommon @
     [(''type'', TLiteral ''code'', Required), (''code'', TModel CodeData, Required)]"
| "model_fields CodeData =
     [(''caption'', TExt RichText, Required), (''rich_text'', TExt RichText, Required),
      (''language'', TExt Language, Required)]"
| "model_fields ColumnList = BlockCommon @
     [(''type'', TLiteral ''column_list'', Required), (''column_list'', TDict, DEmptyDict)]"
| "model_fields Column = BlockCommon @
     [(''type'', TLiteral ''column'', Required), (''column'', TDict, DEmptyDict)]"
| "model_fields HeadingData =
     [(''rich_text'', TExt RichText, Required), (''color'', TExt Color, DColorDefault),
      (''is_toggleable'', TBool, DFalse)]"
| "model_fields Heading1 = BlockCommon @
     [(''type'', TLiteral ''heading_1'', Required), (''heading_1'', TModel HeadingData, Required)]"
| "model_fields Divider = BlockCommon @
     [(''type'', TLiteral ''divider'', Required), (''divider'', TDict, DEmptyDict)]"
| "model_fields Embed = BlockCommon @
     [(''type'', TLiteral ''embed'', Required), (''embed'', TExt Url, Required)]"
| "model_fields Equation = BlockCommon @
     [(''type'', TLiteral ''equation'', Required), (''equation'', TModel EquationData, Required)]"
| "model_fields EquationData = [(''expression'', TStr, Required)]"
| "model_fields File = BlockCommon @
     [(''type'', TLiteral ''file'', Required), (''file'', TExt FileUnion, Required)]"
| "model_fields Heading2 = BlockCommon @
     [(''type'', TLiteral ''heading_2'', Required), (''heading_2'', TModel HeadingData, Required)]"
| "model_fields Heading3 = BlockCommon @
     [(''type'', TLiteral ''heading_3'', Required), (''heading_3'', TModel HeadingData, Required)]"
| "model_fields Image = BlockCommon @
     [(''type'', TLiteral ''image'', Required), (''image'', TModel ImageData, Required)]"
| "model_fields ImageData = [(''file'', TExt FileUnion, Required)]"
| "model_fields LinkPreview = BlockCommon @
     [(''type'', TLiteral ''link_preview'', Required), (''link_to'', TExt Url, Required)]"
| "model_fields NumberedListItem = BlockCommon @
     [(''type'', TLiteral ''numbered_list_item'', Required),
      (''numbered_list_item'', TModel NumberedListItemData, Required)]"
| "model_fields NumberedListItemData =
     [(''rich_text'', TExt RichText, Required), (''color'', TExt Color, DColorDefault),
      children_field]"
| "model_fields Paragraph = BlockCommon @
     [(''type'', TLiteral ''paragraph'', Required), (''paragraph'', TModel ParagraphData, Required)]"
| "model_fields ParagraphData =
     [(''rich_text'', TExt RichText, Required), (''color'', TExt Color, DColorDefault),
      children_field]"
| "model_fields Quote = BlockCommon @
     [(''type'', TLiteral ''quote'', Required), (''quote'', TModel QuoteData, Required)]"
| "model_fields QuoteData =
     [(''rich_text'', TExt RichText, Required), (''color'', TExt Color, DColorDefault),
      children_field]"
| "model_fields SyncedBlock = BlockCommon @
     [(''type'', TLiteral ''synced_block'', Required),
      (''synced_block'', TModel SyncedBlockData, Required)]"
| "model_fields SyncedBlockData =
     [(''synced_from'', TOptional (TModel SyncedFrom), Required), children_field]"
| "model_fields SyncedFrom = [(''block_id'', TPattern, Required)]"
| "model_fields Table = BlockCommon @
     [(''type'', TLiteral ''table'', Required), (''table'', TModel TableData, Required)]"
| "model_fields TableData =
     [(''table_width'', TInt, Required), (''has_column_header'', TBool, Required),
      (''has_row_header'', TBool, Required)]"
| "model_fields TableRow = BlockCommon @
     [(''type'', TLiteral ''table_row'', Required), (''table_row'', TModel TableRowData, Required)]"
| "model_fields TableRowData = [(''cells'', TList (TExt RichText), Required)]"
| "model_fields Todo = BlockCommon @
     [(''type'', TLiteral ''to_do'', Required), (''to_do'', TModel TodoData, Required)]"
| "model_fields TodoData =
     [(''rich_text'', TExt RichText, Required), (''checked'', TBool, DFalse),
      (''color'', TExt Color, DColorDefault), children_field]"
| "model_fields Toggle = BlockCommon @
     [(''type'', TLiteral ''toggle'', Required), (''toggle'', TModel ToggleData, Required)]"
| "model_fields ToggleData =
     [(''rich_text'', TExt RichText, Required), (''color'', TExt Color, DColorDefault),
      children_field]"
| "model_fields Video = BlockCommon @
     [(''type'', TLiteral ''video'', Required), (''video'', TModel VideoData, Required)]"
| "model_fields VideoData = [(''file'', TExt FileUnion, Required)]"

text \<open>\<^verbatim>\<open>_BlockCommon.__subclasses__()\<close>: the direct subclasses, in the order the module defines them.\<close>

definition subclasses :: "model list" where
  "subclasses =
    [Bookmark, BreadCrumb, BulletedListItem, Callout, ChildDatabase, ChildPage, Code,
     ColumnList, Column, Heading1, Divider, Embed, Equation, File, Heading2, Heading3,
     Image, LinkPreview, NumberedListItem, Paragraph, Quote, SyncedBlock, Table,
     TableRow, Todo, Toggle, Video]"

datatype 'v val =
    VNone
  | VBool bool
  | VInt int
  | VStr string
  | VDatetime datetime
  | VDict "(string \<times> json) list"
  | VExt ext 'v
  | VList "'v val list"
  | VModel model "(string \<times> 'v val) list"

record 'v collab =
  ext_validate :: "ext \<Rightarrow> json \<Rightarrow> 'v option"
  ext_serialize :: "ext \<Rightarrow> 'v \<Rightarrow> json"
  Color_DEFAULT :: 'v
  validate_str :: "json \<Rightarrow> string option"
  validate_bool :: "json \<Rightarrow> bool option"
  validate_int :: "json \<Rightarrow> int option"
  validate_dict :: "json \<Rightarrow> (string \<times> json) list option"
  validate_datetime :: "json \<Rightarrow> datetime option"
  extra_forbid :: bool

fun starts_with :: "'a list \<Rightarrow> 'a list \<Rightarrow> bool" where
  "starts_with xs [] = True"
| "starts_with [] (p # ps) = False"
| "starts_with (x # xs) (p # ps) = (x = p \<and> starts_with xs ps)"

fun str_contains :: "string \<Rightarrow> string \<Rightarrow> bool" where
  "str_contains [] p = (p = [])"
| "str_contains (x # xs) p = (starts_with (x # xs) p \<or> str_contains xs p)"

fun insert_type :: "json \<Rightarrow> error + json" where
  "insert_type (JObj values) =
     (if ''type'' \<notin> set (map fst values)
      then (case values of
              [] \<Rightarrow> Inl IndexError
            | (k, v) # rest \<Rightarrow> Inr (JObj (values @ [(''type'', JStr k)])))
      else Inr (JObj values))"
| "insert_type (JStr s) =
     (if \<not> str_contains s ''type''
      then (case s of [] \<Rightarrow> Inl IndexError | c # rest \<Rightarrow> Inl TypeError)
      else Inr (JStr s))"
| "insert_type (JList xs) =
     (if JStr ''type'' \<notin> set xs
      then (case xs of [] \<Rightarrow> Inl IndexError | x # rest \<Rightarrow> Inl TypeError)
      else Inr (JList xs))"
| "insert_type JNull = Inl TypeError"
| "insert_type (JBool b) = Inl TypeError"
| "insert_type (JInt n) = Inl TypeError"

definition hex_char :: "char \<Rightarrow> bool" where
  "hex_char ch = (ch \<in> set ''0123456789abcdefABCDEF'')"

definition hex32 :: "string \<Rightarrow> bool" where
  "hex32 s = (length s = 32 \<and> list_all hex_char s)"

definition hyphenate :: "string \<Rightarrow> string" where
  "hyphenate h =
     take 8 h @ ''-'' @ take 4 (drop 8 h) @ ''-'' @ take 4 (drop 12 h) @ ''-'' @
     take 4 (drop 16 h) @ ''-'' @ drop 20 h"

definition UUIDv4 :: "string \<Rightarrow> bool" where
  "UUIDv4 s =
     (hex32 s \<or>
      (let h = filter (\<lambda>ch. ch \<noteq> CHR ''-'') s in hex32 h \<and> s = hyphenate h))"

fun default_value :: "'v collab \<Rightarrow> dflt \<Rightarrow> error + 'v val" where
  "default_value c Required = Inl ValidationError"
| "default_value c DNone = Inr VNone"
| "default_value c DFalse = Inr (VBool False)"
| "default_value c DEmptyDict = Inr (VDict [])"
| "default_value c DColorDefault = Inr (VExt Color (Color_DEFAULT c))"

fun collect :: "(error + 'a) list \<Rightarrow> error + 'a list" where
  "collect [] = Inr []"
| "collect (Inr x # rs) = (case collect rs of Inl e \<Rightarrow> Inl e | Inr xs \<Rightarrow> Inr (x # xs))"
| "collect (Inl ValidationError # rs) =
     (case collect rs of
        Inl IndexError \<Rightarrow> Inl IndexError
      | Inl TypeError \<Rightarrow> Inl TypeError
      | _ \<Rightarrow> Inl ValidationError)"
| "collect (Inl e # rs) = Inl e"

fun smart :: "(error + 'a) list \<Rightarrow> error + 'a" where
  "smart [] = Inl ValidationError"
| "smart (Inr x # rs) =
     (case smart rs of
        Inl IndexError \<Rightarrow> Inl IndexError
      | Inl TypeError \<Rightarrow> Inl TypeError
      | _ \<Rightarrow> Inr x)"
| "smart (Inl ValidationError # rs) = smart rs"
| "smart (Inl e # rs) = Inl e"

definition before :: "model \<Rightarrow> json \<Rightarrow> error + (string \<times> json) list" where
  "before m j =
     (case (if m \<in> set subclasses then insert_type j else Inr j) of
        Inl e \<Rightarrow> Inl e
      | Inr (JObj kvs) \<Rightarrow> Inr kvs
      | Inr _ \<Rightarrow> Inl ValidationError)"

definition finish :: "'v collab \<Rightarrow> model \<Rightarrow> (string \<times> json) list \<Rightarrow> error + 'v val list \<Rightarrow> error + 'v val" where
  "finish c m kvs r =
     (case r of
        Inl e \<Rightarrow> Inl e
      | Inr vs \<Rightarrow>
          if extra_forbid c \<and> \<not> set (map fst kvs) \<subseteq> set (map fst (model_fields m))
          then Inl ValidationError
          else Inr (VModel m (zip (map fst (model_fields m)) vs)))"

fun rank :: "ftype \<Rightarrow> nat" where
  "rank TChildBlockUnion = 1"
| "rank (TOptional t) = Suc (rank t)"
| "rank (TList t) = Suc (rank t)"
| "rank t = 0"

lemma size_member_obj: "(k, v) \<in> set kvs \<Longrightarrow> size v < size (JObj kvs)"
  by (induction kvs) auto

lemma size_member_list: "x \<in> set xs \<Longrightarrow> size x < size (JList xs)"
  by (induction xs) auto

lemma insert_type_size:
  assumes "insert_type j = Inr (JObj kvs)" and "(k, v) \<in> set kvs"
  shows "size v < size j"
proof (cases j)
  case (JObj raw)
  show ?thesis
  proof (cases "''type'' \<in> set (map fst raw)")
    case True
    with assms JObj show ?thesis by (simp add: size_member_obj del: json.size)
  next
    case False
    with assms(1) JObj obtain k0 v0 rest where
      v: "raw = (k0, v0) # rest" and kvs: "kvs = raw @ [(''type'', JStr k0)]"
      by (cases raw) auto
    from assms(2) kvs have "(k, v) \<in> set raw \<or> v = JStr k0" by auto
    then show ?thesis
    proof
      assume "(k, v) \<in> set raw"
      then show ?thesis using JObj by (simp add: size_member_obj del: json.size)
    next
      assume "v = JStr k0"
      then show ?thesis using JObj by simp
    qed
  qed
qed (use assms in \<open>auto split: if_splits list.splits\<close>)

lemma before_size:
  assumes "before m j = Inr kvs" and "map_of kvs n = Some v"
  shows "size v < size j"
proof -
  from assms(2) have mem: "(n, v) \<in> set kvs" by (rule map_of_SomeD)
  show ?thesis
  proof (cases "m \<in> set subclasses")
    case True
    with assms(1) have "insert_type j = Inr (JObj kvs)"
      by (auto simp: before_def split: sum.splits json.splits)
    then show ?thesis using mem by (rule insert_type_size)
  next
    case False
    with assms(1) have "j = JObj kvs"
      by (auto simp: before_def split: json.splits)
    then show ?thesis using mem by (simp add: size_member_obj del: json.size)
  qed
qed

function validate :: "'v collab \<Rightarrow> ftype \<Rightarrow> json \<Rightarrow> error + 'v val" where
  "validate c TStr j =
     (case validate_str c j of None \<Rightarrow> Inl ValidationError | Some s \<Rightarrow> Inr (VStr s))"
| "validate c TBool j =
     (case validate_bool c j of None \<Rightarrow> Inl ValidationError | Some b \<Rightarrow> Inr (VBool b))"
| "validate c TInt j =
     (case validate_int c j of None \<Rightarrow> Inl ValidationError | Some n \<Rightarrow> Inr (VInt n))"
| "validate c TDict j =
     (case validate_dict c j of None \<Rightarrow> Inl ValidationError | Some d \<Rightarrow> Inr (VDict d))"
| "validate c TDatetime j =
     (case validate_datetime c j of None \<Rightarrow> Inl ValidationError | Some t \<Rightarrow> Inr (VDatetime t))"
| "validate c TPattern j =
     (case validate_str c j of
        None \<Rightarrow> Inl ValidationError
      | Some s \<Rightarrow> if UUIDv4 s then Inr (VStr s) else Inl ValidationError)"
| "validate c (TLiteral l) j = (if j = JStr l then Inr (VStr l) else Inl ValidationError)"
| "validate c (TExt e) j =
     (case ext_validate c e j of None \<Rightarrow> Inl ValidationError | Some x \<Rightarrow> Inr (VExt e x))"
| "validate c (TOptional t) j = (if j = JNull then Inr VNone else validate c t j)"
| "validate c (TList t) j =
     (case j of
        JList xs \<Rightarrow>
          (case collect (map (validate c t) xs) of Inl e \<Rightarrow> Inl e | Inr vs \<Rightarrow> Inr (VList vs))
      | _ \<Rightarrow> Inl ValidationError)"
| "validate c (TModel m) j =
     (case before m j of
        Inl e \<Rightarrow> Inl e
      | Inr kvs \<Rightarrow>
          finish c m kvs
            (collect (map (\<lambda>(n, t, d). case map_of kvs n of
                                          None \<Rightarrow> default_value c d
                                        | Some v \<Rightarrow> validate c t v)
                       (model_fields m))))"
| "validate c TChildBlockUnion j = smart (map (\<lambda>m. validate c (TModel m) j) subclasses)"
  by pat_completeness auto
termination
proof (relation "measures [\<lambda>(c, t, j). size j, \<lambda>(c, t, j). rank t]")
  fix c :: "'v collab" and t j xs x
  assume "j = JList xs" and "x \<in> set xs"
  then show "((c, t, x), c, TList t, j) \<in> measures [\<lambda>(c, t, j). size j, \<lambda>(c, t, j). rank t]"
    using size_member_list [of x xs] by simp
next
  fix c :: "'v collab" and m j kvs f n td t d v
  assume "before m j = Inr kvs" and "map_of kvs n = Some v"
  then show "((c, t, v), c, TModel m, j) \<in> measures [\<lambda>(c, t, j). size j, \<lambda>(c, t, j). rank t]"
    using before_size [of m j kvs n v] by simp
qed simp_all


definition discriminator :: "model \<Rightarrow> string option" where
  "discriminator m =
     (case map_of (model_fields m) ''type'' of
        Some (TLiteral l, d) \<Rightarrow> Some l
      | _ \<Rightarrow> None)"

definition Block :: "'v collab \<Rightarrow> json \<Rightarrow> error + 'v val" where
  "Block c j =
     (case j of
        JObj kvs \<Rightarrow>
          (case map_of kvs ''type'' of
             Some (JStr tag) \<Rightarrow>
               (case find (\<lambda>m. discriminator m = Some tag) subclasses of
                  Some m \<Rightarrow> validate c (TModel m) j
                | None \<Rightarrow> Inl ValidationError)
           | _ \<Rightarrow> Inl ValidationError)
      | _ \<Rightarrow> Inl ValidationError)"

fun digit :: "nat \<Rightarrow> char" where
  "digit n = char_of (48 + n mod 10)"

fun pad :: "nat \<Rightarrow> nat \<Rightarrow> string" where
  "pad 0 k = []"
| "pad (Suc w) k = pad w (k div 10) @ [digit k]"

definition format_offset :: "int option \<Rightarrow> string" where
  "format_offset off =
     (case off of
        None \<Rightarrow> []
      | Some z \<Rightarrow>
          if z = 0 then ''Z''
          else (if z < 0 then ''-'' else ''+'') @ pad 2 (nat \<bar>z\<bar> div 60) @ '':'' @
               pad 2 (nat \<bar>z\<bar> mod 60))"

definition format_datetime :: "datetime \<Rightarrow> string" where
  "format_datetime t =
     pad 4 (year t) @ ''-'' @ pad 2 (month t) @ ''-'' @ pad 2 (day t) @ ''T'' @
     pad 2 (hour t) @ '':'' @ pad 2 (minute t) @ '':'' @ pad 2 (second t) @
     format_offset (utcoffset t)"

definition validate_time :: "datetime \<Rightarrow> string" where
  "validate_time time = format_datetime time"

fun serialize :: "'v collab \<Rightarrow> 'v val \<Rightarrow> json" where
  "serialize c VNone = JNull"
| "serialize c (VBool b) = JBool b"
| "serialize c (VInt n) = JInt n"
| "serialize c (VStr s) = JStr s"
| "serialize c (VDatetime t) = JStr (validate_time t)"
| "serialize c (VDict d) = JObj d"
| "serialize c (VExt e x) = ext_serialize c e x"
| "serialize c (VList vs) = JList (map (serialize c) vs)"
| "serialize c (VModel m fs) =
     JObj (map (\<lambda>(k, v). (k, serialize c v)) (filter (\<lambda>(k, v). v \<noteq> VNone) fs))"


fun sample_ext :: "ext \<Rightarrow> json \<Rightarrow> json option" where
  "sample_ext RichText (JList xs) = Some (JList xs)"
| "sample_ext Url (JObj kvs) =
     (case map_of kvs ''url'' of Some (JStr u) \<Rightarrow> Some (JObj kvs) | _ \<Rightarrow> None)"
| "sample_ext FileUnion (JObj kvs) = Some (JObj kvs)"
| "sample_ext ParentUnion (JObj kvs) = Some (JObj kvs)"
| "sample_ext NotionUser (JObj kvs) = Some (JObj kvs)"
| "sample_ext Color (JStr s) =
     (if s \<in> set [''default'', ''gray'', ''brown'', ''orange'', ''yellow'', ''green'', ''blue'',
                    ''purple'', ''pink'', ''red'']
      then Some (JStr s) else None)"
| "sample_ext Language (JStr s) = Some (JStr s)"
| "sample_ext e j = None"

fun sample_str :: "json \<Rightarrow> string option" where
  "sample_str (JStr s) = Some s"
| "sample_str j = None"

fun sample_bool :: "json \<Rightarrow> bool option" where
  "sample_bool (JBool b) = Some b"
| "sample_bool j = None"

fun sample_int :: "json \<Rightarrow> int option" where
  "sample_int (JInt n) = Some n"
| "sample_int j = None"

fun sample_dict :: "json \<Rightarrow> (string \<times> json) list option" where
  "sample_dict (JObj kvs) = Some kvs"
| "sample_dict j = None"

definition digit_val :: "char \<Rightarrow> nat option" where
  "digit_val ch =
     (let n = (of_char ch :: nat) in if 48 \<le> n \<and> n \<le> 57 then Some (n - 48) else None)"

fun number_acc :: "nat \<Rightarrow> string \<Rightarrow> nat option" where
  "number_acc a [] = Some a"
| "number_acc a (ch # cs) =
     (case digit_val ch of None \<Rightarrow> None | Some d \<Rightarrow> number_acc (10 * a + d) cs)"

definition number :: "string \<Rightarrow> nat option" where
  "number s = (if s = [] then None else number_acc 0 s)"

definition days_in_month :: "nat \<Rightarrow> nat \<Rightarrow> nat" where
  "days_in_month y m =
     (if m = 2 then (if y mod 4 = 0 \<and> (y mod 100 \<noteq> 0 \<or> y mod 400 = 0) then 29 else 28)
      else if m \<in> {4, 6, 9, 11} then 30 else 31)"

definition iso_offset :: "string \<Rightarrow> int option option" where
  "iso_offset z =
     (if z = [] then Some None
      else if z = ''Z'' then Some (Some 0)
      else if length z = 6 \<and> (z ! 0 = CHR ''+'' \<or> z ! 0 = CHR ''-'') \<and> z ! 3 = CHR '':''
      then (case (number (take 2 (drop 1 z)), number (drop 4 z)) of
              (Some h, Some m) \<Rightarrow>
                if h < 24 \<and> m < 60
                then Some (Some ((if z ! 0 = CHR ''-'' then - 1 else 1) * int (60 * h + m)))
                else None
            | _ \<Rightarrow> None)
      else None)"

definition iso_fraction :: "string \<Rightarrow> (nat \<times> string) option" where
  "iso_fraction r =
     (case r of
        ch # cs \<Rightarrow>
          if ch = CHR ''.''
          then (let ds = takeWhile (\<lambda>d. digit_val d \<noteq> None) cs in
                case number (take 6 (ds @ ''000000'')) of
                  None \<Rightarrow> None
                | Some us \<Rightarrow> if ds = [] then None
                             else Some (us, dropWhile (\<lambda>d. digit_val d \<noteq> None) cs))
          else Some (0, r)
      | [] \<Rightarrow> Some (0, r))"

definition iso_datetime :: "string \<Rightarrow> datetime option" where
  "iso_datetime s =
     (if length s < 19 \<or> s ! 4 \<noteq> CHR ''-'' \<or> s ! 7 \<noteq> CHR ''-'' \<or> s ! 10 \<noteq> CHR ''T'' \<or>
         s ! 13 \<noteq> CHR '':'' \<or> s ! 16 \<noteq> CHR '':''
      then None
      else
        (case (number (take 4 s), number (take 2 (drop 5 s)), number (take 2 (drop 8 s)),
               number (take 2 (drop 11 s)), number (take 2 (drop 14 s)),
               number (take 2 (drop 17 s)), iso_fraction (drop 19 s)) of
           (Some y, Some mo, Some d, Some h, Some mi, Some se, Some (us, z)) \<Rightarrow>
             (case iso_offset z of
                Some off \<Rightarrow>
                  if 1 \<le> y \<and> 1 \<le> mo \<and> mo \<le> 12 \<and> 1 \<le> d \<and> d \<le> days_in_month y mo \<and>
                     h < 24 \<and> mi < 60 \<and> se < 60
                  then Some \<lparr>year = y, month = mo, day = d, hour = h, minute = mi, second = se,
                             microsecond = us, utcoffset = off\<rparr>
                  else None
              | None \<Rightarrow> None)
         | _ \<Rightarrow> None))"

fun sample_datetime :: "json \<Rightarrow> datetime option" where
  "sample_datetime (JStr s) = iso_datetime s"
| "sample_datetime j = None"

definition sample :: "bool \<Rightarrow> json collab" where
  "sample forbid =
     \<lparr>ext_validate = sample_ext, ext_serialize = (\<lambda>e x. x), Color_DEFAULT = JStr ''default'',
      validate_str = sample_str, validate_bool = sample_bool, validate_int = sample_int,
      validate_dict = sample_dict, validate_datetime = sample_datetime,
      extra_forbid = forbid\<rparr>"





section \<open>The claims\<close>

text \<open>
  C10. The top-level \<^verbatim>\<open>Block\<close> adapter is the union discriminated by \<^verbatim>\<open>type\<close>: the tag is
  looked up in the raw mapping before any model validator runs, so every mapping without
  an explicit \<^verbatim>\<open>type\<close> key is refused with a validation error, whatever its other keys
  are. The inference of \<^verbatim>\<open>insert_type\<close> only takes effect in the undiscriminated child
  union.
\<close>

theorem Block_requires_type:
  "''type'' \<notin> set (map fst kvs) \<Longrightarrow> Block c (JObj kvs) = Inl ValidationError"
proof -
  assume "''type'' \<notin> set (map fst kvs)"
  then have "map_of kvs ''type'' = None"
    by (simp add: map_of_eq_None_iff)
  then show ?thesis
    by (simp add: Block_def)
qed

lemma child_divider:
  "validate (sample True) TChildBlockUnion (JObj [(''divider'', JObj [])]) =
   Inr (VModel Divider
       [(''object'', VNone), (''id'', VNone), (''parent'', VNone),
        (''created_time'', VNone), (''last_edited_time'', VNone),
        (''created_by'', VNone), (''last_edited_by'', VNone),
        (''has_children'', VBool False), (''archived'', VBool False),
        (''in_trash'', VBool False), (''request_id'', VNone),
        (''type'', VStr ''divider''), (''divider'', VDict [])])"
  by (simp add: sample_def before_def finish_def subclasses_def BlockCommon_def)

theorem Block_requires_type_witness:
  "Block (sample True) (JObj [(''divider'', JObj [])]) = Inl ValidationError \<and>
   validate (sample True) TChildBlockUnion (JObj [(''divider'', JObj [])]) =
   Inr (VModel Divider
       [(''object'', VNone), (''id'', VNone), (''parent'', VNone),
        (''created_time'', VNone), (''last_edited_time'', VNone),
        (''created_by'', VNone), (''last_edited_by'', VNone),
        (''has_children'', VBool False), (''archived'', VBool False),
        (''in_trash'', VBool False), (''request_id'', VNone),
        (''type'', VStr ''divider''), (''divider'', VDict [])])"
  using Block_requires_type [of "[(''divider'', JObj [])]" "sample True"] child_divider
  by simp


end
